theory Spec2Isabelle
  imports Complex_Main "HOL-Library.Word"
begin

section \<open>Python values used by the service\<close>

text \<open>
  Strings are lists of characters with code points below 256. An identifier is the
  128-bit value of a \<^verbatim>\<open>uuid.UUID\<close>; a timestamp is a point on the store's clock.
\<close>

type_synonym uuid = "128 word"
type_synonym datetime = nat

text \<open>The exceptions the code raises or catches by class; each carries its message.\<close>

datatype exn = ValueError string | APIError string | Exception string

fun str_exn :: "exn \<Rightarrow> string" where
  "str_exn (ValueError m) = m"
| "str_exn (APIError m) = m"
| "str_exn (Exception m) = m"

text \<open>\<^verbatim>\<open>fastapi.HTTPException(status_code, detail)\<close>; its \<^verbatim>\<open>str\<close> is
  \<^verbatim>\<open>"<status_code>: <detail>"\<close>.\<close>

datatype http_exception = HTTPException (status_code: nat) (detail: string)

fun digit_char :: "nat \<Rightarrow> char" where
  "digit_char n = char_of (48 + n mod 10)"

fun str_status :: "nat \<Rightarrow> string" where
  "str_status n = [digit_char (n div 100), digit_char (n div 10), digit_char n]"

fun str_http_exception :: "http_exception \<Rightarrow> string" where
  "str_http_exception (HTTPException c d) = str_status c @ '': '' @ d"

text \<open>\<^verbatim>\<open>str.isspace\<close>, \<^verbatim>\<open>str.strip()\<close>, \<^verbatim>\<open>str.lower()\<close> and
  \<^verbatim>\<open>sub in s\<close> on code points below 256.\<close>

definition py_isspace :: "char \<Rightarrow> bool" where
  "py_isspace c =
     (let n = (of_char c :: nat)
      in (9 \<le> n \<and> n \<le> 13) \<or> (28 \<le> n \<and> n \<le> 32) \<or> n = 133 \<or> n = 160)"

definition py_strip :: "string \<Rightarrow> string" where
  "py_strip s = rev (dropWhile py_isspace (rev (dropWhile py_isspace s)))"

definition py_lower_char :: "char \<Rightarrow> char" where
  "py_lower_char c =
     (let n = (of_char c :: nat)
      in if (65 \<le> n \<and> n \<le> 90) \<or> (192 \<le> n \<and> n \<le> 222 \<and> n \<noteq> 215)
         then char_of (n + 32) else c)"

definition py_lower :: "string \<Rightarrow> string" where
  "py_lower s = map py_lower_char s"

fun py_in :: "string \<Rightarrow> string \<Rightarrow> bool" where
  "py_in sub [] = (sub = [])"
| "py_in sub (c # cs) = (take (length sub) (c # cs) = sub \<or> py_in sub cs)"

section \<open>models.py\<close>

subsection \<open>Create models and their validators\<close>

record WorkflowCreate =
  wc_name :: string

record FieldCreate =
  fc_workflow_id :: uuid
  fc_name :: string
  fc_data_type :: string

record PromptCreate =
  pc_field_id :: uuid
  pc_prompt_template :: string

record WorkflowExecutionRequest =
  er_user_input :: string

text \<open>
  A request body member that fails validation: \<open>TooShort\<close> is the \<^verbatim>\<open>min_length=1\<close>
  constraint of \<^verbatim>\<open>Field(...)\<close>, \<open>Rejected\<close> a \<^verbatim>\<open>ValueError\<close> raised by a
  \<^verbatim>\<open>@validator\<close>. The constraint is checked first and the validator runs on a
  value that passed it.
\<close>

datatype issue = TooShort string | Rejected string string

definition min_length_1 :: "string \<Rightarrow> string \<Rightarrow> issue + string" where
  "min_length_1 loc v = (if length v < 1 then Inl (TooShort loc) else Inr v)"

definition non_blank :: "string \<Rightarrow> string \<Rightarrow> string \<Rightarrow> issue + string" where
  "non_blank loc msg v =
     (case min_length_1 loc v of
        Inl i \<Rightarrow> Inl i
      | Inr v' \<Rightarrow> (if py_strip v' = [] then Inl (Rejected loc msg) else Inr (py_strip v')))"

definition valid_types :: "string list" where
  "valid_types = [''text'', ''number'', ''boolean'', ''date'', ''email'', ''url'', ''json'']"

definition validate_data_type :: "string \<Rightarrow> issue + string" where
  "validate_data_type v =
     (if v \<notin> set valid_types
      then Inl (Rejected ''data_type''
        (''Data type must be one of: text, number, boolean, date, email, url, json''))
      else Inr v)"

definition issues_of :: "(issue + 'a) list \<Rightarrow> issue list" where
  "issues_of rs = concat (map (\<lambda>r. case r of Inl i \<Rightarrow> [i] | Inr _ \<Rightarrow> []) rs)"

definition new_WorkflowCreate :: "string \<Rightarrow> issue list + WorkflowCreate" where
  "new_WorkflowCreate name =
     (case non_blank ''name'' ''Workflow name cannot be empty'' name of
        Inl i \<Rightarrow> Inl [i]
      | Inr n \<Rightarrow> Inr \<lparr>wc_name = n\<rparr>)"

definition new_FieldCreate :: "uuid \<Rightarrow> string \<Rightarrow> string \<Rightarrow> issue list + FieldCreate" where
  "new_FieldCreate wid name dtype =
     (case (non_blank ''name'' ''Field name cannot be empty'' name,
            validate_data_type dtype) of
        (Inr n, Inr t) \<Rightarrow> Inr \<lparr>fc_workflow_id = wid, fc_name = n, fc_data_type = t\<rparr>
      | (rn, rt) \<Rightarrow> Inl (issues_of [rn] @ issues_of [rt]))"

definition new_PromptCreate :: "uuid \<Rightarrow> string \<Rightarrow> issue list + PromptCreate" where
  "new_PromptCreate fid template =
     (case non_blank ''prompt_template'' ''Prompt template cannot be empty'' template of
        Inl i \<Rightarrow> Inl [i]
      | Inr t \<Rightarrow> Inr \<lparr>pc_field_id = fid, pc_prompt_template = t\<rparr>)"

definition new_WorkflowExecutionRequest :: "string \<Rightarrow> issue list + WorkflowExecutionRequest" where
  "new_WorkflowExecutionRequest input =
     (case non_blank ''user_input'' ''User input cannot be empty'' input of
        Inl i \<Rightarrow> Inl [i]
      | Inr t \<Rightarrow> Inr \<lparr>er_user_input = t\<rparr>)"

subsection \<open>Response models\<close>

record Prompt =
  p_id :: uuid
  p_field_id :: uuid
  p_prompt_template :: string
  p_created_at :: datetime

record FieldWithPrompts =
  f_id :: uuid
  f_workflow_id :: uuid
  f_name :: string
  f_data_type :: string
  f_created_at :: datetime
  f_prompts :: "Prompt list"

text \<open>\<^verbatim>\<open>Workflow\<close>: \<open>w_fields\<close> is the optional nested list, \<open>None\<close> unless given.\<close>

record Workflow =
  w_id :: uuid
  w_name :: string
  w_created_at :: datetime
  w_fields :: "FieldWithPrompts list option"

record WorkflowComplete =
  c_id :: uuid
  c_name :: string
  c_created_at :: datetime
  c_fields :: "FieldWithPrompts list"

record FieldExecutionResult =
  field_id :: uuid
  field_name :: string
  data_type :: string
  prompt_template :: string
  ai_response :: string
  execution_success :: bool
  error_message :: "string option"

record WorkflowExecutionResponse =
  workflow_id :: uuid
  workflow_name :: string
  user_input :: string
  total_fields :: int
  successful_executions :: int
  failed_executions :: int
  field_results :: "FieldExecutionResult list"
  execution_timestamp :: datetime

section \<open>The external collaborators\<close>

text \<open>
  The rows of the three tables as the store returns them: every column present, the
  identifiers well-formed.
\<close>

record workflow_row =
  wr_id :: uuid
  wr_name :: string
  wr_created_at :: datetime

record field_row =
  fr_id :: uuid
  fr_workflow_id :: uuid
  fr_name :: string
  fr_data_type :: string
  fr_created_at :: datetime

record prompt_row =
  pr_id :: uuid
  pr_field_id :: uuid
  pr_prompt_template :: string
  pr_created_at :: datetime

text \<open>The arguments of one \<^verbatim>\<open>client.chat.completions.create\<close> call, and its answer:
  the message content of each choice, \<open>None\<close> where a choice has no text.\<close>

record chat_request =
  model :: string
  messages :: "(string \<times> string) list"
  max_tokens :: nat
  temperature :: real
  timeout :: real

type_synonym chat_completion = "string option list"

text \<open>
  Everything outside the repository, over a state \<open>'w\<close> of the outside world. A store
  call is one \<^verbatim>\<open>supabase.table(...)...execute()\<close>: it raises (\<open>Inl\<close>) or returns the
  rows of \<^verbatim>\<open>result.data\<close> (\<open>Inr\<close>), and leaves the world in a new state.
  \<open>uuid_of_str\<close> is \<^verbatim>\<open>uuid.UUID(s)\<close>, \<open>None\<close> standing for its \<^verbatim>\<open>ValueError\<close>.
\<close>

record 'w env =
  uuid_of_str :: "string \<Rightarrow> uuid option"
  db_select_workflows :: "uuid \<Rightarrow> 'w \<Rightarrow> (exn + workflow_row list) \<times> 'w"
  db_select_fields :: "uuid \<Rightarrow> 'w \<Rightarrow> (exn + field_row list) \<times> 'w"
  db_select_prompts :: "uuid \<Rightarrow> 'w \<Rightarrow> (exn + prompt_row list) \<times> 'w"
  db_insert_workflow :: "string \<Rightarrow> 'w \<Rightarrow> (exn + workflow_row list) \<times> 'w"
  db_insert_field :: "uuid \<Rightarrow> string \<Rightarrow> string \<Rightarrow> 'w \<Rightarrow> (exn + field_row list) \<times> 'w"
  db_insert_prompt :: "uuid \<Rightarrow> string \<Rightarrow> 'w \<Rightarrow> (exn + prompt_row list) \<times> 'w"
  db_delete_field :: "uuid \<Rightarrow> 'w \<Rightarrow> (exn + field_row list) \<times> 'w"
  getenv :: "string \<Rightarrow> 'w \<Rightarrow> string option"
  chat_completions_create :: "chat_request \<Rightarrow> 'w \<Rightarrow> (exn + chat_completion) \<times> 'w"
  utcnow :: "'w \<Rightarrow> datetime"

section \<open>services.py\<close>

definition system_instruction :: string where
  "system_instruction =
     ''You are a helpful AI assistant. Follow the instructions in the prompt carefully.''"

definition combined_prompt :: "string \<Rightarrow> string \<Rightarrow> string" where
  "combined_prompt template input =
     template @ [CHR 0x0A, CHR 0x0A] @ ''User Input: '' @ input"

definition generation_request :: "string \<Rightarrow> string \<Rightarrow> chat_request" where
  "generation_request template input =
     \<lparr>model = ''gpt-3.5-turbo'',
      messages = [(''system'', system_instruction),
                  (''user'', combined_prompt template input)],
      max_tokens = 1000, temperature = 0.7, timeout = 30\<rparr>"

text \<open>
  \<^verbatim>\<open>response.choices[0].message.content.strip()\<close>: an empty \<open>choices\<close> is an
  \<^verbatim>\<open>IndexError\<close>, a missing content an \<^verbatim>\<open>AttributeError\<close>; both are raised inside
  the \<^verbatim>\<open>try\<close> and leave through \<^verbatim>\<open>except Exception\<close>.
\<close>

definition unexpected :: "string \<Rightarrow> exn" where
  "unexpected m = Exception (''Unexpected error during prompt execution: '' @ m)"

definition execute_prompt ::
  "'w env \<Rightarrow> string \<Rightarrow> string \<Rightarrow> 'w \<Rightarrow> (exn + string) \<times> 'w" where
  "execute_prompt e template input w =
     (case getenv e ''OPENAI_API_KEY'' w of
        None \<Rightarrow> (Inl (ValueError ''OPENAI_API_KEY environment variable is required''), w)
      | Some k \<Rightarrow>
          if k = [] then
            (Inl (ValueError ''OPENAI_API_KEY environment variable is required''), w)
          else
            (case chat_completions_create e (generation_request template input) w of
               (Inl (APIError m), w') \<Rightarrow> (Inl (APIError (''OpenAI API error: '' @ m)), w')
             | (Inl x, w') \<Rightarrow> (Inl (unexpected (str_exn x)), w')
             | (Inr [], w') \<Rightarrow> (Inl (unexpected ''list index out of range''), w')
             | (Inr (None # _), w') \<Rightarrow>
                 (Inl (unexpected
                   [CHR 0x27, CHR ''N'', CHR ''o'', CHR ''n'', CHR ''e'', CHR ''T'', CHR ''y'',
                    CHR ''p'', CHR ''e'', CHR 0x27, CHR '' '', CHR ''o'', CHR ''b'', CHR ''j'',
                    CHR ''e'', CHR ''c'', CHR ''t'', CHR '' '', CHR ''h'', CHR ''a'', CHR ''s'',
                    CHR '' '', CHR ''n'', CHR ''o'', CHR '' '', CHR ''a'', CHR ''t'', CHR ''t'',
                    CHR ''r'', CHR ''i'', CHR ''b'', CHR ''u'', CHR ''t'', CHR ''e'', CHR '' '',
                    CHR 0x27, CHR ''s'', CHR ''t'', CHR ''r'', CHR ''i'', CHR ''p'', CHR 0x27]), w')
             | (Inr (Some text # _), w') \<Rightarrow> (Inr (py_strip text), w')))"

section \<open>main.py: workflow execution\<close>

type_synonym tally = "FieldExecutionResult list \<times> int \<times> int"

text \<open>
  The \<^verbatim>\<open>for field in fields\<close> loop, with its three locals \<open>field_results\<close>,
  \<open>successful_executions\<close> and \<open>failed_executions\<close>. The prompt fetch stands outside
  the inner \<^verbatim>\<open>try\<close>: an exception it raises leaves the loop.
\<close>

fun process_fields ::
  "'w env \<Rightarrow> string \<Rightarrow> field_row list \<Rightarrow> tally \<Rightarrow> 'w \<Rightarrow> (exn + tally) \<times> 'w" where
  "process_fields e ui [] acc w = (Inr acc, w)"
| "process_fields e ui (field # rest) (results, succeeded, failed) w =
     (case db_select_prompts e (fr_id field) w of
        (Inl x, w1) \<Rightarrow> (Inl x, w1)
      | (Inr [], w1) \<Rightarrow>
          process_fields e ui rest
            (results @ [\<lparr>field_id = fr_id field, field_name = fr_name field,
                          data_type = fr_data_type field, prompt_template = [],
                          ai_response = [], execution_success = False,
                          error_message = Some ''No prompts found for this field''\<rparr>],
             succeeded, failed + 1) w1
      | (Inr (prompt # _), w1) \<Rightarrow>
          (case execute_prompt e (pr_prompt_template prompt) ui w1 of
             (Inr answer, w2) \<Rightarrow>
               process_fields e ui rest
                 (results @ [\<lparr>field_id = fr_id field, field_name = fr_name field,
                               data_type = fr_data_type field,
                               prompt_template = pr_prompt_template prompt,
                               ai_response = answer, execution_success = True,
                               error_message = None\<rparr>],
                  succeeded + 1, failed) w2
           | (Inl x, w2) \<Rightarrow>
               process_fields e ui rest
                 (results @ [\<lparr>field_id = fr_id field, field_name = fr_name field,
                               data_type = fr_data_type field,
                               prompt_template = pr_prompt_template prompt,
                               ai_response = [], execution_success = False,
                               error_message = Some (str_exn x)\<rparr>],
                  succeeded, failed + 1) w2))"

definition execution_failed :: "exn \<Rightarrow> http_exception" where
  "execution_failed x =
     HTTPException 500 (''Unexpected error during workflow execution: '' @ str_exn x)"

definition execute_workflow ::
  "'w env \<Rightarrow> string \<Rightarrow> WorkflowExecutionRequest \<Rightarrow> 'w
    \<Rightarrow> (http_exception + WorkflowExecutionResponse) \<times> 'w" where
  "execute_workflow e wid execution_request w =
     (case uuid_of_str e wid of
        None \<Rightarrow> (Inl (HTTPException 400 ''Invalid workflow ID format''), w)
      | Some workflow_uuid \<Rightarrow>
          (case db_select_workflows e workflow_uuid w of
             (Inl x, w1) \<Rightarrow> (Inl (execution_failed x), w1)
           | (Inr [], w1) \<Rightarrow> (Inl (HTTPException 404 ''Workflow not found''), w1)
           | (Inr (workflow # _), w1) \<Rightarrow>
               (case db_select_fields e workflow_uuid w1 of
                  (Inl x, w2) \<Rightarrow> (Inl (execution_failed x), w2)
                | (Inr [], w2) \<Rightarrow>
                    (Inl (HTTPException 404 ''No fields found for this workflow''), w2)
                | (Inr field_rows, w2) \<Rightarrow>
                    (case process_fields e (er_user_input execution_request) field_rows
                            ([], 0, 0) w2 of
                       (Inl x, w3) \<Rightarrow> (Inl (execution_failed x), w3)
                     | (Inr (results, succeeded, failed), w3) \<Rightarrow>
                         (Inr \<lparr>workflow_id = wr_id workflow,
                               workflow_name = wr_name workflow,
                               user_input = er_user_input execution_request,
                               total_fields = int (length field_rows),
                               successful_executions = succeeded,
                               failed_executions = failed,
                               field_results = results,
                               execution_timestamp = utcnow e w3\<rparr>, w3)))))"


section \<open>main.py: workflows and fields\<close>

text \<open>
  The \<^verbatim>\<open>except Exception as e\<close> clause shared by the create handlers: a conflict when
  the lower-cased message holds \<^verbatim>\<open>duplicate key value\<close>, a database error otherwise.
\<close>

definition database_error :: "string \<Rightarrow> http_exception" where
  "database_error m = HTTPException 500 (''Database error: '' @ m)"

definition conflict_or_database_error :: "string \<Rightarrow> string \<Rightarrow> http_exception" where
  "conflict_or_database_error conflict m =
     (if py_in ''duplicate key value'' (py_lower m)
      then HTTPException 409 conflict
      else database_error m)"

text \<open>
  \<^verbatim>\<open>create_workflow\<close> has no \<^verbatim>\<open>except HTTPException: raise\<close>: the exception it
  raises itself on an empty result goes through the same clause.
\<close>

definition create_workflow ::
  "'w env \<Rightarrow> WorkflowCreate \<Rightarrow> 'w \<Rightarrow> (http_exception + Workflow) \<times> 'w" where
  "create_workflow e workflow_data w =
     (case db_insert_workflow e (wc_name workflow_data) w of
        (Inl x, w1) \<Rightarrow>
          (Inl (conflict_or_database_error ''A workflow with this name already exists''
                  (str_exn x)), w1)
      | (Inr [], w1) \<Rightarrow>
          (Inl (conflict_or_database_error ''A workflow with this name already exists''
                  (str_http_exception (HTTPException 500 ''Failed to create workflow''))), w1)
      | (Inr (workflow # _), w1) \<Rightarrow>
          (Inr \<lparr>w_id = wr_id workflow, w_name = wr_name workflow,
                w_created_at = wr_created_at workflow, w_fields = None\<rparr>, w1))"

definition prompt_of_row :: "prompt_row \<Rightarrow> Prompt" where
  "prompt_of_row r =
     \<lparr>p_id = pr_id r, p_field_id = pr_field_id r,
      p_prompt_template = pr_prompt_template r, p_created_at = pr_created_at r\<rparr>"

definition field_with_prompts :: "field_row \<Rightarrow> Prompt list \<Rightarrow> FieldWithPrompts" where
  "field_with_prompts r ps =
     \<lparr>f_id = fr_id r, f_workflow_id = fr_workflow_id r, f_name = fr_name r,
      f_data_type = fr_data_type r, f_created_at = fr_created_at r, f_prompts = ps\<rparr>"

text \<open>The \<^verbatim>\<open>for field_data in fields_result.data\<close> loop of \<^verbatim>\<open>get_workflow\<close>.\<close>

fun nest_prompts ::
  "'w env \<Rightarrow> field_row list \<Rightarrow> FieldWithPrompts list \<Rightarrow> 'w
    \<Rightarrow> (exn + FieldWithPrompts list) \<times> 'w" where
  "nest_prompts e [] acc w = (Inr acc, w)"
| "nest_prompts e (field_data # rest) acc w =
     (case db_select_prompts e (fr_id field_data) w of
        (Inl x, w1) \<Rightarrow> (Inl x, w1)
      | (Inr rows, w1) \<Rightarrow>
          nest_prompts e rest
            (acc @ [field_with_prompts field_data (map prompt_of_row rows)]) w1)"

definition get_workflow ::
  "'w env \<Rightarrow> string \<Rightarrow> 'w \<Rightarrow> (http_exception + WorkflowComplete) \<times> 'w" where
  "get_workflow e wid w =
     (case uuid_of_str e wid of
        None \<Rightarrow> (Inl (HTTPException 400 ''Invalid workflow ID format''), w)
      | Some workflow_uuid \<Rightarrow>
          (case db_select_workflows e workflow_uuid w of
             (Inl x, w1) \<Rightarrow> (Inl (database_error (str_exn x)), w1)
           | (Inr [], w1) \<Rightarrow> (Inl (HTTPException 404 ''Workflow not found''), w1)
           | (Inr (workflow # _), w1) \<Rightarrow>
               (case db_select_fields e workflow_uuid w1 of
                  (Inl x, w2) \<Rightarrow> (Inl (database_error (str_exn x)), w2)
                | (Inr field_rows, w2) \<Rightarrow>
                    (case nest_prompts e field_rows [] w2 of
                       (Inl x, w3) \<Rightarrow> (Inl (database_error (str_exn x)), w3)
                     | (Inr nested, w3) \<Rightarrow>
                         (Inr \<lparr>c_id = wr_id workflow, c_name = wr_name workflow,
                               c_created_at = wr_created_at workflow,
                               c_fields = nested\<rparr>, w3)))))"

text \<open>
  \<^verbatim>\<open>create_field_with_prompt\<close>. Its own \<^verbatim>\<open>HTTPException\<close>s are re-raised as they
  are; any other exception goes through the shared clause. The compensating delete
  stands in the branch for an empty result of the prompt insert only.
\<close>

definition field_failure :: "exn \<Rightarrow> http_exception" where
  "field_failure x =
     conflict_or_database_error ''A field with this name already exists in this workflow''
       (str_exn x)"

definition create_field_with_prompt ::
  "'w env \<Rightarrow> string \<Rightarrow> FieldCreate \<Rightarrow> PromptCreate \<Rightarrow> 'w
    \<Rightarrow> (http_exception + FieldWithPrompts) \<times> 'w" where
  "create_field_with_prompt e wid field_data prompt_data w =
     (case uuid_of_str e wid of
        None \<Rightarrow> (Inl (HTTPException 400 ''Invalid workflow ID format''), w)
      | Some workflow_uuid \<Rightarrow>
          (case db_select_workflows e workflow_uuid w of
             (Inl x, w1) \<Rightarrow> (Inl (field_failure x), w1)
           | (Inr [], w1) \<Rightarrow> (Inl (HTTPException 404 ''Workflow not found''), w1)
           | (Inr (_ # _), w1) \<Rightarrow>
               if fc_workflow_id field_data \<noteq> workflow_uuid then
                 (Inl (HTTPException 400
                    ''Field workflow_id must match the URL workflow_id''), w1)
               else
                 (case db_insert_field e workflow_uuid (fc_name field_data)
                         (fc_data_type field_data) w1 of
                    (Inl x, w2) \<Rightarrow> (Inl (field_failure x), w2)
                  | (Inr [], w2) \<Rightarrow>
                      (Inl (HTTPException 500 ''Failed to create field''), w2)
                  | (Inr (field # _), w2) \<Rightarrow>
                      if pc_field_id prompt_data \<noteq> fr_id field then
                        (Inl (HTTPException 400
                           ''Prompt field_id must match the created field ID''), w2)
                      else
                        (case db_insert_prompt e (fr_id field)
                                (pc_prompt_template prompt_data) w2 of
                           (Inl x, w3) \<Rightarrow> (Inl (field_failure x), w3)
                         | (Inr [], w3) \<Rightarrow>
                             (case db_delete_field e (fr_id field) w3 of
                                (Inl x, w4) \<Rightarrow> (Inl (field_failure x), w4)
                              | (Inr _, w4) \<Rightarrow>
                                  (Inl (HTTPException 500 ''Failed to create prompt''), w4))
                         | (Inr (prompt # _), w3) \<Rightarrow>
                             (Inr (field_with_prompts field [prompt_of_row prompt]),
                              w3)))))"

subsection \<open>The route in front of \<^verbatim>\<open>create_field_with_prompt\<close>\<close>

text \<open>
  \<^verbatim>\<open>@app.post("/workflows/{workflow_id}/fields", status_code=201)\<close> with two body
  parameters. The framework builds \<^verbatim>\<open>FieldCreate\<close> and \<^verbatim>\<open>PromptCreate\<close> from the body
  before it calls the function; when either fails it answers with its request
  validation error, status 422 (main.py installs no handler of its own for it), and
  the function is not called. The body is taken after JSON decoding, its identifiers
  already read.
\<close>

record field_body =
  fb_workflow_id :: uuid
  fb_name :: string
  fb_data_type :: string

record prompt_body =
  pb_field_id :: uuid
  pb_prompt_template :: string

datatype 'a reply = Reply nat 'a | Refused nat string | Unprocessable "issue list"

fun reply_status :: "'a reply \<Rightarrow> nat" where
  "reply_status (Reply n _) = n"
| "reply_status (Refused n _) = n"
| "reply_status (Unprocessable _) = 422"

definition post_workflow_fields ::
  "'w env \<Rightarrow> string \<Rightarrow> field_body \<Rightarrow> prompt_body \<Rightarrow> 'w \<Rightarrow> FieldWithPrompts reply \<times> 'w" where
  "post_workflow_fields e wid fb pb w =
     (case (new_FieldCreate (fb_workflow_id fb) (fb_name fb) (fb_data_type fb),
            new_PromptCreate (pb_field_id pb) (pb_prompt_template pb)) of
        (Inr field_data, Inr prompt_data) \<Rightarrow>
          (case create_field_with_prompt e wid field_data prompt_data w of
             (Inl x, w') \<Rightarrow> (Refused (status_code x) (detail x), w')
           | (Inr r, w') \<Rightarrow> (Reply 201 r, w'))
      | (rf, rp) \<Rightarrow>
          (Unprocessable ((case rf of Inl is \<Rightarrow> is | Inr _ \<Rightarrow> []) @
                          (case rp of Inl is \<Rightarrow> is | Inr _ \<Rightarrow> [])), w))"

section \<open>A store and a generation service to run the handlers on\<close>

text \<open>
  Three tables in memory stand for the hosted database, with the unique workflow name
  of its schema. Identifiers and timestamps are assigned on insert. \<open>faults\<close> lists
  what the coming store calls do, first call first: answer, raise, or come back with
  no rows and no effect; past its end every call answers. \<open>environ\<close> is the process
  environment and \<open>sent\<close> the generation requests issued so far.
\<close>

datatype fault = Answers | Raises exn | Returns_nothing

record mem =
  tbl_workflows :: "workflow_row list"
  tbl_fields :: "field_row list"
  tbl_prompts :: "prompt_row list"
  next_uuid :: uuid
  clock :: datetime
  faults :: "fault list"
  environ :: "(string \<times> string) list"
  sent :: "chat_request list"

definition store_call ::
  "(mem \<Rightarrow> (exn + 'a list) \<times> mem) \<Rightarrow> mem \<Rightarrow> (exn + 'a list) \<times> mem" where
  "store_call run m =
     (case faults m of
        [] \<Rightarrow> run m
      | Answers # fs \<Rightarrow> run (m\<lparr>faults := fs\<rparr>)
      | Raises x # fs \<Rightarrow> (Inl x, m\<lparr>faults := fs\<rparr>)
      | Returns_nothing # fs \<Rightarrow> (Inr [], m\<lparr>faults := fs\<rparr>))"

definition mem_select_workflows :: "uuid \<Rightarrow> mem \<Rightarrow> (exn + workflow_row list) \<times> mem" where
  "mem_select_workflows u =
     store_call (\<lambda>m. (Inr (filter (\<lambda>r. wr_id r = u) (tbl_workflows m)), m))"

definition mem_select_fields :: "uuid \<Rightarrow> mem \<Rightarrow> (exn + field_row list) \<times> mem" where
  "mem_select_fields u =
     store_call (\<lambda>m. (Inr (filter (\<lambda>r. fr_workflow_id r = u) (tbl_fields m)), m))"

definition mem_select_prompts :: "uuid \<Rightarrow> mem \<Rightarrow> (exn + prompt_row list) \<times> mem" where
  "mem_select_prompts u =
     store_call (\<lambda>m. (Inr (filter (\<lambda>r. pr_field_id r = u) (tbl_prompts m)), m))"

definition mem_insert_workflow :: "string \<Rightarrow> mem \<Rightarrow> (exn + workflow_row list) \<times> mem" where
  "mem_insert_workflow name =
     store_call (\<lambda>m.
       if name \<in> set (map wr_name (tbl_workflows m)) then
         (Inl (Exception ''duplicate key value violates unique constraint''), m)
       else
         (let row = \<lparr>wr_id = next_uuid m, wr_name = name, wr_created_at = clock m\<rparr>
          in (Inr [row], m\<lparr>tbl_workflows := tbl_workflows m @ [row],
                            next_uuid := next_uuid m + 1, clock := clock m + 1\<rparr>)))"

definition mem_insert_field ::
  "uuid \<Rightarrow> string \<Rightarrow> string \<Rightarrow> mem \<Rightarrow> (exn + field_row list) \<times> mem" where
  "mem_insert_field u name dtype =
     store_call (\<lambda>m.
       let row = \<lparr>fr_id = next_uuid m, fr_workflow_id = u, fr_name = name,
                  fr_data_type = dtype, fr_created_at = clock m\<rparr>
       in (Inr [row], m\<lparr>tbl_fields := tbl_fields m @ [row],
                         next_uuid := next_uuid m + 1, clock := clock m + 1\<rparr>))"

definition mem_insert_prompt :: "uuid \<Rightarrow> string \<Rightarrow> mem \<Rightarrow> (exn + prompt_row list) \<times> mem" where
  "mem_insert_prompt u template =
     store_call (\<lambda>m.
       let row = \<lparr>pr_id = next_uuid m, pr_field_id = u, pr_prompt_template = template,
                  pr_created_at = clock m\<rparr>
       in (Inr [row], m\<lparr>tbl_prompts := tbl_prompts m @ [row],
                         next_uuid := next_uuid m + 1, clock := clock m + 1\<rparr>))"

definition mem_delete_field :: "uuid \<Rightarrow> mem \<Rightarrow> (exn + field_row list) \<times> mem" where
  "mem_delete_field u =
     store_call (\<lambda>m.
       (Inr (filter (\<lambda>r. fr_id r = u) (tbl_fields m)),
        m\<lparr>tbl_fields := filter (\<lambda>r. fr_id r \<noteq> u) (tbl_fields m)\<rparr>))"

text \<open>A reader of identifiers: thirty-two hexadecimal digits, hyphens skipped.\<close>

definition hex_digit :: "char \<Rightarrow> nat option" where
  "hex_digit c =
     (let n = (of_char c :: nat)
      in if 48 \<le> n \<and> n \<le> 57 then Some (n - 48)
         else if 97 \<le> n \<and> n \<le> 102 then Some (n - 87)
         else if 65 \<le> n \<and> n \<le> 70 then Some (n - 55)
         else None)"

fun hex_number :: "nat \<Rightarrow> string \<Rightarrow> nat option" where
  "hex_number acc [] = Some acc"
| "hex_number acc (c # cs) =
     (case hex_digit c of None \<Rightarrow> None | Some d \<Rightarrow> hex_number (16 * acc + d) cs)"

definition read_uuid :: "string \<Rightarrow> uuid option" where
  "read_uuid s =
     (let h = filter (\<lambda>c. c \<noteq> CHR ''-'') s
      in if length h = 32 then map_option of_nat (hex_number 0 h) else None)"

text \<open>The collaborators over \<open>mem\<close>; \<open>llm\<close> is what the generation service answers.\<close>

definition mem_env :: "(chat_request \<Rightarrow> exn + chat_completion) \<Rightarrow> mem env" where
  "mem_env llm =
     \<lparr>uuid_of_str = read_uuid,
      db_select_workflows = mem_select_workflows,
      db_select_fields = mem_select_fields,
      db_select_prompts = mem_select_prompts,
      db_insert_workflow = mem_insert_workflow,
      db_insert_field = mem_insert_field,
      db_insert_prompt = mem_insert_prompt,
      db_delete_field = mem_delete_field,
      getenv = (\<lambda>name m. map_of (environ m) name),
      chat_completions_create = (\<lambda>req m. (llm req, m\<lparr>sent := sent m @ [req]\<rparr>)),
      utcnow = clock\<rparr>"

subsection \<open>A workflow to run\<close>

text \<open>
  One workflow with two fields; in \<open>intake\<close> only the first field has a prompt, in
  \<open>intake_full\<close> both have. \<open>answering\<close> is a generation service that answers every
  request, \<open>failing\<close> one that is down.
\<close>

definition answering :: "chat_request \<Rightarrow> exn + chat_completion" where
  "answering req = Inr [Some ''  forty-two  '']"


definition wid1 :: string where
  "wid1 = ''00000000-0000-0000-0000-000000000001''"

definition age_field :: field_row where
  "age_field = \<lparr>fr_id = 2, fr_workflow_id = 1, fr_name = ''age'',
                 fr_data_type = ''number'', fr_created_at = 11\<rparr>"

definition email_field :: field_row where
  "email_field = \<lparr>fr_id = 3, fr_workflow_id = 1, fr_name = ''email'',
                   fr_data_type = ''email'', fr_created_at = 12\<rparr>"

definition age_prompt :: prompt_row where
  "age_prompt = \<lparr>pr_id = 4, pr_field_id = 2, pr_prompt_template = ''Extract the age'',
                  pr_created_at = 13\<rparr>"

definition email_prompt :: prompt_row where
  "email_prompt = \<lparr>pr_id = 5, pr_field_id = 3, pr_prompt_template = ''Extract the email'',
                    pr_created_at = 14\<rparr>"

definition intake :: mem where
  "intake =
     \<lparr>tbl_workflows = [\<lparr>wr_id = 1, wr_name = ''intake'', wr_created_at = 10\<rparr>],
      tbl_fields = [age_field, email_field],
      tbl_prompts = [age_prompt],
      next_uuid = 5, clock = 14, faults = [],
      environ = [(''OPENAI_API_KEY'', ''sk-test'')], sent = []\<rparr>"

definition intake_full :: mem where
  "intake_full = intake\<lparr>tbl_prompts := [age_prompt, email_prompt], next_uuid := 6,
                         clock := 15\<rparr>"

text \<open>The relation between the members of one recorded result.\<close>

definition well_formed_result :: "FieldExecutionResult \<Rightarrow> bool" where
  "well_formed_result r =
     ((execution_success r \<longleftrightarrow> error_message r = None) \<and>
      (\<not> execution_success r \<longrightarrow> ai_response r = []) \<and>
      (error_message r = Some ''No prompts found for this field'' \<longrightarrow> prompt_template r = []))"

text \<open>The result recorded for a field without prompts.\<close>

definition no_prompts_result :: "field_row \<Rightarrow> FieldExecutionResult" where
  "no_prompts_result field =
     \<lparr>field_id = fr_id field, field_name = fr_name field, data_type = fr_data_type field,
      prompt_template = [], ai_response = [], execution_success = False,
      error_message = Some ''No prompts found for this field''\<rparr>"

section \<open>The field loop\<close>

lemma execute_prompt_message:
  "execute_prompt e t ui w = (Inl x, w') \<Longrightarrow> str_exn x \<noteq> ''No prompts found for this field''"
  by (auto simp: execute_prompt_def unexpected_def
           split: option.splits if_splits prod.splits sum.splits exn.splits list.splits)

lemma process_fields_Inr:
  "process_fields e ui fs (rs, s, f) w = (Inr (rs', s', f'), w') \<Longrightarrow>
   \<exists>new. rs' = rs @ new \<and> map field_id new = map fr_id fs \<and>
     s' = s + int (length (filter execution_success new)) \<and>
     f' = f + int (length (filter (\<lambda>r. \<not> execution_success r) new)) \<and>
     (\<forall>r\<in>set new. well_formed_result r)"
proof (induction fs arbitrary: rs s f w)
  case Nil
  then show ?case by simp
next
  case (Cons a fs)
  obtain r1 w1 where sel: "db_select_prompts e (fr_id a) w = (r1, w1)" by (cases "db_select_prompts e (fr_id a) w")
  show ?case
  proof (cases r1)
    case (Inl x)
    with Cons.prems sel show ?thesis by simp
  next
    case (Inr rows)
    show ?thesis
    proof (cases rows)
      case Nil
      with Cons.prems sel Inr
      have "process_fields e ui fs (rs @ [no_prompts_result a], s, f + 1) w1 = (Inr (rs', s', f'), w')"
        by (simp add: no_prompts_result_def)
      from Cons.IH[OF this] obtain new where
        n: "rs' = (rs @ [no_prompts_result a]) @ new" "map field_id new = map fr_id fs"
           "s' = s + int (length (filter execution_success new))"
           "f' = f + 1 + int (length (filter (\<lambda>r. \<not> execution_success r) new))"
           "\<forall>r\<in>set new. well_formed_result r" by blast
      show ?thesis
        by (rule exI[of _ "no_prompts_result a # new"])
           (use n in \<open>simp add: no_prompts_result_def well_formed_result_def\<close>)
    next
      case (Cons p ps)
      obtain r2 w2 where ex: "execute_prompt e (pr_prompt_template p) ui w1 = (r2, w2)"
        by (cases "execute_prompt e (pr_prompt_template p) ui w1")
      show ?thesis
      proof (cases r2)
        case (Inl x)
        let ?r = "\<lparr>field_id = fr_id a, field_name = fr_name a, data_type = fr_data_type a,
                   prompt_template = pr_prompt_template p, ai_response = [],
                   execution_success = False, error_message = Some (str_exn x)\<rparr>"
        from Cons.prems sel Inr Cons ex Inl
        have "process_fields e ui fs (rs @ [?r], s, f + 1) w2 = (Inr (rs', s', f'), w')" by simp
        from Cons.IH[OF this] obtain new where
          n: "rs' = (rs @ [?r]) @ new" "map field_id new = map fr_id fs"
             "s' = s + int (length (filter execution_success new))"
             "f' = f + 1 + int (length (filter (\<lambda>r. \<not> execution_success r) new))"
             "\<forall>r\<in>set new. well_formed_result r" by blast
        have "str_exn x \<noteq> ''No prompts found for this field''"
          using execute_prompt_message[of e "pr_prompt_template p" ui w1 x w2] ex Inl by simp
        then show ?thesis
          by (intro exI[of _ "?r # new"])
             (use n in \<open>simp add: well_formed_result_def\<close>)
      next
        case (Inr answer)
        let ?r = "\<lparr>field_id = fr_id a, field_name = fr_name a, data_type = fr_data_type a,
                   prompt_template = pr_prompt_template p, ai_response = answer,
                   execution_success = True, error_message = None\<rparr>"
        from Cons.prems sel \<open>r1 = Inr rows\<close> Cons ex Inr
        have "process_fields e ui fs (rs @ [?r], s + 1, f) w2 = (Inr (rs', s', f'), w')" by simp
        from Cons.IH[OF this] obtain new where
          n: "rs' = (rs @ [?r]) @ new" "map field_id new = map fr_id fs"
             "s' = s + 1 + int (length (filter execution_success new))"
             "f' = f + int (length (filter (\<lambda>r. \<not> execution_success r) new))"
             "\<forall>r\<in>set new. well_formed_result r" by blast
        show ?thesis
          by (intro exI[of _ "?r # new"])
             (use n in \<open>simp add: well_formed_result_def\<close>)
      qed
    qed
  qed
qed






lemma process_fields_all_succeed:
  assumes "I w"
    and "\<forall>f\<in>set fs. \<forall>s. I s \<longrightarrow>
           (\<exists>p ps s'. db_select_prompts e (fr_id f) s = (Inr (p # ps), s') \<and> I s')"
    and "\<forall>t s. I s \<longrightarrow> (\<exists>text s'. execute_prompt e t ui s = (Inr text, s') \<and> I s')"
  shows "\<exists>new w'. process_fields e ui fs (rs, s, f) w = (Inr (rs @ new, s + int (length fs), f), w') \<and>
           length new = length fs \<and>
           (\<forall>r\<in>set new. execution_success r \<and> error_message r = None \<and>
              (\<exists>s s'. I s \<and> execute_prompt e (prompt_template r) ui s = (Inr (ai_response r), s')))"
  using assms
proof (induction fs arbitrary: rs s w)
  case Nil
  then show ?case by simp
next
  case (Cons a fs)
  from Cons.prems(1,2) obtain p ps w1 where
    sel: "db_select_prompts e (fr_id a) w = (Inr (p # ps), w1)" and I1: "I w1"
    by (meson list.set_intros(1))
  from Cons.prems(3) I1 obtain answer w2 where
    ex: "execute_prompt e (pr_prompt_template p) ui w1 = (Inr answer, w2)" and I2: "I w2"
    by meson
  let ?r = "\<lparr>field_id = fr_id a, field_name = fr_name a, data_type = fr_data_type a,
             prompt_template = pr_prompt_template p, ai_response = answer,
             execution_success = True, error_message = None\<rparr>"
  have rest: "\<forall>f\<in>set fs. \<forall>s. I s \<longrightarrow>
           (\<exists>p ps s'. db_select_prompts e (fr_id f) s = (Inr (p # ps), s') \<and> I s')"
    using Cons.prems(2) by simp
  from Cons.IH[OF I2 rest Cons.prems(3), of "rs @ [?r]" "s + 1"]
  obtain new w' where
    n: "process_fields e ui fs (rs @ [?r], s + 1, f) w2 =
          (Inr ((rs @ [?r]) @ new, s + 1 + int (length fs), f), w')"
       "length new = length fs"
       "\<forall>r\<in>set new. execution_success r \<and> error_message r = None \<and>
          (\<exists>s s'. I s \<and> execute_prompt e (prompt_template r) ui s = (Inr (ai_response r), s'))"
    by blast
  have step: "process_fields e ui (a # fs) (rs, s, f) w =
        (Inr (rs @ (?r # new), s + int (length (a # fs)), f), w')"
    using sel ex n(1) by simp
  have here: "\<exists>s s'. I s \<and> execute_prompt e (prompt_template ?r) ui s = (Inr (ai_response ?r), s')"
    using I1 ex by auto
  show ?case
    by (intro exI[of _ "?r # new"] exI[of _ w'] conjI)
       (use step n(2,3) here in \<open>simp_all\<close>)
qed


lemma execute_workflow_run:
  assumes "uuid_of_str e wid = Some u"
    and "db_select_workflows e u w = (Inr (workflow # others), w1)"
    and "db_select_fields e u w1 = (Inr fs, w2)"
    and "fs \<noteq> []"
  shows "execute_workflow e wid req w =
           (case process_fields e (er_user_input req) fs ([], 0, 0) w2 of
              (Inl x, w3) \<Rightarrow> (Inl (execution_failed x), w3)
            | (Inr (rs, s, f), w3) \<Rightarrow>
                (Inr \<lparr>workflow_id = wr_id workflow, workflow_name = wr_name workflow,
                      user_input = er_user_input req, total_fields = int (length fs),
                      successful_executions = s, failed_executions = f,
                      field_results = rs, execution_timestamp = utcnow e w3\<rparr>, w3))"
proof -
  obtain a fs' where fs: "fs = a # fs'" using assms(4) by (cases fs) auto
  show ?thesis
    unfolding execute_workflow_def fs
    using assms(1-3)[unfolded fs] by (simp del: process_fields.simps)
qed


lemma execute_workflow_returns:
  assumes "execute_workflow e wid req w = (Inr resp, w')"
  shows "\<exists>fs w2 rs s f. fs \<noteq> [] \<and>
           process_fields e (er_user_input req) fs ([], 0, 0) w2 = (Inr (rs, s, f), w') \<and>
           field_results resp = rs \<and> successful_executions resp = s \<and>
           failed_executions resp = f \<and> total_fields resp = int (length fs)"
  using assms unfolding execute_workflow_def
  by (simp del: process_fields.simps split: option.splits prod.splits sum.splits list.splits)
     fastforce+

section \<open>Claims about workflow execution\<close>




text \<open>
  C2. A workflow with \<open>N \<ge> 1\<close> fields, every field with at least one prompt and every
  generation call returning: the response has \<open>total_fields = successful_executions = N\<close>,
  \<open>failed_executions = 0\<close> and \<open>N\<close> results, each successful, without error message
  and with the text a generation call on its prompt template returned as
  \<open>ai_response\<close>. \<open>I\<close> holds of the states of the outside world the loop runs through:
  it holds when the loop starts and every call keeps it.
\<close>

theorem execute_workflow_all_succeed:
  assumes "uuid_of_str e wid = Some u"
    and "db_select_workflows e u w = (Inr (workflow # others), w1)"
    and "db_select_fields e u w1 = (Inr fs, w2)"
    and "fs \<noteq> []"
    and "I w2"
    and "\<forall>f\<in>set fs. \<forall>s. I s \<longrightarrow>
           (\<exists>p ps s'. db_select_prompts e (fr_id f) s = (Inr (p # ps), s') \<and> I s')"
    and "\<forall>t s. I s \<longrightarrow>
           (\<exists>text s'. execute_prompt e t (er_user_input req) s = (Inr text, s') \<and> I s')"
  shows "\<exists>resp w'. execute_workflow e wid req w = (Inr resp, w') \<and>
           total_fields resp = int (length fs) \<and>
           successful_executions resp = int (length fs) \<and>
           failed_executions resp = 0 \<and>
           length (field_results resp) = length fs \<and>
           (\<forall>r\<in>set (field_results resp).
              execution_success r \<and> error_message r = None \<and>
              (\<exists>s s'. I s \<and> execute_prompt e (prompt_template r) (er_user_input req) s =
                         (Inr (ai_response r), s')))"
proof -
  obtain a fs' where fs: "fs = a # fs'" using assms(4) by (cases fs) auto
  let ?ui = "er_user_input req"
  from process_fields_all_succeed[of I w2 fs e ?ui "[]" 0 0, OF assms(5,6,7)]
  obtain new w' where
    run: "process_fields e ?ui fs ([], 0, 0) w2 = (Inr (new, int (length fs), 0), w')"
    and n: "length new = length fs"
       "\<forall>r\<in>set new. execution_success r \<and> error_message r = None \<and>
          (\<exists>s s'. I s \<and> execute_prompt e (prompt_template r) ?ui s = (Inr (ai_response r), s'))"
    by auto
  let ?resp = "\<lparr>workflow_id = wr_id workflow, workflow_name = wr_name workflow, user_input = ?ui,
                total_fields = int (length fs), successful_executions = int (length fs),
                failed_executions = 0, field_results = new,
                execution_timestamp = utcnow e w'\<rparr>"
  have ex: "execute_workflow e wid req w = (Inr ?resp, w')"
    using execute_workflow_run[OF assms(1-4), of req] run by simp
  show ?thesis
    apply (rule exI[of _ ?resp], rule exI[of _ w'])
    using ex n by simp
qed

lemma answering_prompt_ok:
  assumes "map_of (environ s) ''OPENAI_API_KEY'' = Some ''sk-test''"
  shows "execute_prompt (mem_env answering) t ui s =
           (Inr ''forty-two'', s\<lparr>sent := sent s @ [generation_request t ui]\<rparr>)"
proof -
  have strip: "py_strip ''  forty-two  '' = ''forty-two''" by code_simp
  show ?thesis
    using assms by (simp add: execute_prompt_def mem_env_def answering_def strip)
qed

lemma mem_select_prompts_quiet:
  assumes "faults s = []"
  shows "db_select_prompts (mem_env llm) u s =
           (Inr (filter (\<lambda>r. pr_field_id r = u) (tbl_prompts s)), s)"
  using assms by (simp add: mem_env_def mem_select_prompts_def store_call_def)

theorem execute_workflow_all_succeed_witness:
  "uuid_of_str (mem_env answering) wid1 = Some 1 \<and>
   db_select_fields (mem_env answering) 1 intake_full =
     (Inr [age_field, email_field], intake_full) \<and>
   (\<exists>resp w'. execute_workflow (mem_env answering) wid1 \<lparr>er_user_input = ''I am 42''\<rparr>
                  intake_full = (Inr resp, w') \<and>
      total_fields resp = 2 \<and> successful_executions resp = 2 \<and> failed_executions resp = 0 \<and>
      length (field_results resp) = 2 \<and>
      map execution_success (field_results resp) = [True, True] \<and>
      map ai_response (field_results resp) = [''forty-two'', ''forty-two''])"
proof -
  let ?e = "mem_env answering"
  let ?req = "\<lparr>er_user_input = ''I am 42''\<rparr>"
  let ?I = "\<lambda>s. tbl_prompts s = [age_prompt, email_prompt] \<and> faults s = [] \<and>
                map_of (environ s) ''OPENAI_API_KEY'' = Some ''sk-test''"
  have h1: "uuid_of_str ?e wid1 = Some 1" by code_simp
  have h2: "db_select_workflows ?e 1 intake_full =
     (Inr (\<lparr>wr_id = 1, wr_name = ''intake'', wr_created_at = 10\<rparr> # []), intake_full)"
    by code_simp
  have h3: "db_select_fields ?e 1 intake_full = (Inr [age_field, email_field], intake_full)"
    by code_simp
  have h4: "[age_field, email_field] \<noteq> []" by simp
  have h5: "?I intake_full" by (simp add: intake_full_def intake_def)
  have h6: "\<forall>f\<in>set [age_field, email_field]. \<forall>s. ?I s \<longrightarrow>
              (\<exists>p ps s'. db_select_prompts ?e (fr_id f) s = (Inr (p # ps), s') \<and> ?I s')"
    by (simp add: mem_select_prompts_quiet age_field_def email_field_def
                  age_prompt_def email_prompt_def)
  have h7: "\<forall>t s. ?I s \<longrightarrow>
              (\<exists>answer s'. execute_prompt ?e t (er_user_input ?req) s = (Inr answer, s') \<and> ?I s')"
    by (simp add: answering_prompt_ok)
  from execute_workflow_all_succeed[of ?e wid1 1 intake_full _ _ intake_full _ intake_full ?I ?req,
        OF h1 h2 h3 h4 h5 h6 h7]
  obtain resp w' where ex: "execute_workflow ?e wid1 ?req intake_full = (Inr resp, w')"
    and c: "total_fields resp = int (length [age_field, email_field])"
       "successful_executions resp = int (length [age_field, email_field])"
       "failed_executions resp = 0"
       "length (field_results resp) = length [age_field, email_field]"
       "\<forall>r\<in>set (field_results resp). execution_success r \<and> error_message r = None \<and>
          (\<exists>s s'. ?I s \<and> execute_prompt ?e (prompt_template r) (er_user_input ?req) s =
                      (Inr (ai_response r), s'))"
    by blast
  obtain r1 r2 where rs: "field_results resp = [r1, r2]"
    using c(4) by (cases "field_results resp"; cases "tl (field_results resp)") auto
  have ok: "execution_success r1" "execution_success r2" using c(5) rs by simp_all
  have a: "ai_response r = ''forty-two''" if "r \<in> set (field_results resp)" for r
  proof -
    from c(5) that obtain s s' where "?I s"
      "execute_prompt ?e (prompt_template r) (er_user_input ?req) s = (Inr (ai_response r), s')"
      by blast
    then show ?thesis by (simp add: answering_prompt_ok)
  qed
  have a12: "ai_response r1 = ''forty-two''" "ai_response r2 = ''forty-two''"
    using a rs by simp_all
  show ?thesis
    using h1 h3 ex c(1-4) rs ok a12
    by (intro conjI exI[of _ resp] exI[of _ w']) simp_all
qed



text \<open>
  C10. In every result of a returned response, \<open>execution_success\<close> holds exactly when
  \<open>error_message\<close> is \<open>None\<close>; a failed result has an empty \<open>ai_response\<close>; and the
  result of a field without prompts (the one with the message
  \<open>No prompts found for this field\<close>) has an empty \<open>prompt_template\<close> too.
\<close>

theorem field_results_well_formed:
  assumes "execute_workflow e wid req w = (Inr resp, w')"
  shows "\<forall>r\<in>set (field_results resp).
           (execution_success r \<longleftrightarrow> error_message r = None) \<and>
           (\<not> execution_success r \<longrightarrow> ai_response r = []) \<and>
           (error_message r = Some ''No prompts found for this field'' \<longrightarrow> prompt_template r = [])"
proof -
  from execute_workflow_returns[OF assms] obtain fs w2 rs' s' f' where
    run: "process_fields e (er_user_input req) fs ([], 0, 0) w2 = (Inr (rs', s', f'), w')"
    and resp: "field_results resp = rs'"
    by blast
  from process_fields_Inr[OF run] have "\<forall>r\<in>set rs'. well_formed_result r" by auto
  then show ?thesis using resp by (simp add: well_formed_result_def)
qed

theorem field_results_well_formed_witness:
  "\<exists>resp w'. execute_workflow (mem_env answering) wid1 \<lparr>er_user_input = ''I am 42''\<rparr> intake
        = (Inr resp, w') \<and>
     map execution_success (field_results resp) = [True, False] \<and>
     map error_message (field_results resp) = [None, Some ''No prompts found for this field''] \<and>
     map ai_response (field_results resp) = [''forty-two'', []] \<and>
     map prompt_template (field_results resp) = [''Extract the age'', []]"
proof -
  let ?run = "execute_workflow (mem_env answering) wid1 \<lparr>er_user_input = ''I am 42''\<rparr> intake"
  have v: "case ?run of
          (Inr resp, w') \<Rightarrow>
            map execution_success (field_results resp) = [True, False] \<and>
            map error_message (field_results resp) = [None, Some ''No prompts found for this field''] \<and>
            map ai_response (field_results resp) = [''forty-two'', []] \<and>
            map prompt_template (field_results resp) = [''Extract the age'', []]
        | (Inl x, w') \<Rightarrow> False"
    by code_simp
  obtain r w' where run: "?run = (r, w')" by (rule prod.exhaust)
  obtain resp where r: "r = Inr resp"
    using v unfolding run by (cases r) simp_all
  have facts: "map execution_success (field_results resp) = [True, False] \<and>
       map error_message (field_results resp) = [None, Some ''No prompts found for this field''] \<and>
       map ai_response (field_results resp) = [''forty-two'', []] \<and>
       map prompt_template (field_results resp) = [''Extract the age'', []]"
    using v unfolding run r by simp
  have ex: "?run = (Inr resp, w')" using run r by simp
  note field_results_well_formed[OF ex]
  then show ?thesis using ex facts by (intro exI[of _ resp] exI[of _ w'] conjI) simp_all
qed

section \<open>Claims about the prompt executor\<close>





section \<open>Claims about workflows and fields\<close>



text \<open>
  C9. When the store's insert raises and the lower-cased message of the exception holds
  \<^verbatim>\<open>duplicate key value\<close>, creating the workflow fails with status 409, not 500.
\<close>

theorem create_workflow_duplicate_key_is_conflict:
  assumes "db_insert_workflow e (wc_name workflow_data) w = (Inl x, w1)"
    and "py_in ''duplicate key value'' (py_lower (str_exn x))"
  shows "create_workflow e workflow_data w =
           (Inl (HTTPException 409 ''A workflow with this name already exists''), w1)"
  using assms by (simp add: create_workflow_def conflict_or_database_error_def)

theorem create_workflow_duplicate_key_is_conflict_witness:
  "db_insert_workflow (mem_env answering) (wc_name \<lparr>wc_name = ''intake''\<rparr>) intake =
     (Inl (Exception ''duplicate key value violates unique constraint''), intake) \<and>
   py_in ''duplicate key value''
     (py_lower (str_exn (Exception ''duplicate key value violates unique constraint''))) \<and>
   create_workflow (mem_env answering) \<lparr>wc_name = ''intake''\<rparr> intake =
     (Inl (HTTPException 409 ''A workflow with this name already exists''), intake)"
proof -
  let ?e = "mem_env answering"
  have h1: "db_insert_workflow ?e (wc_name \<lparr>wc_name = ''intake''\<rparr>) intake =
     (Inl (Exception ''duplicate key value violates unique constraint''), intake)" by code_simp
  have h2: "py_in ''duplicate key value''
     (py_lower (str_exn (Exception ''duplicate key value violates unique constraint'')))"
    by code_simp
  from create_workflow_duplicate_key_is_conflict[OF h1 h2] h1 h2
  show ?thesis by (intro conjI)
qed

text \<open>
  C5. The prompt's \<open>field_id\<close> is compared with the identifier of the field inserted in
  the same request. When they differ the request fails with status 400 after the
  insert, and the outside world is left as the insert left it: no delete follows, the
  field stays.
\<close>

theorem mismatched_prompt_field_id_keeps_field:
  assumes "uuid_of_str e wid = Some u"
    and "db_select_workflows e u w = (Inr (workflow # others), w1)"
    and "fc_workflow_id field_data = u"
    and "db_insert_field e u (fc_name field_data) (fc_data_type field_data) w1 =
           (Inr (field # further), w2)"
    and "pc_field_id prompt_data \<noteq> fr_id field"
  shows "create_field_with_prompt e wid field_data prompt_data w =
           (Inl (HTTPException 400 ''Prompt field_id must match the created field ID''), w2)"
  using assms by (simp add: create_field_with_prompt_def)

theorem mismatched_prompt_field_id_keeps_field_witness:
  "db_insert_field (mem_env answering) 1 ''city'' ''text'' intake =
     (Inr [\<lparr>fr_id = 5, fr_workflow_id = 1, fr_name = ''city'', fr_data_type = ''text'',
            fr_created_at = 14\<rparr>],
      intake\<lparr>tbl_fields := [age_field, email_field,
                 \<lparr>fr_id = 5, fr_workflow_id = 1, fr_name = ''city'', fr_data_type = ''text'',
                  fr_created_at = 14\<rparr>],
              next_uuid := 6, clock := 15\<rparr>) \<and>
   create_field_with_prompt (mem_env answering) wid1
       \<lparr>fc_workflow_id = 1, fc_name = ''city'', fc_data_type = ''text''\<rparr>
       \<lparr>pc_field_id = 9, pc_prompt_template = ''Extract the city''\<rparr> intake =
     (Inl (HTTPException 400 ''Prompt field_id must match the created field ID''),
      intake\<lparr>tbl_fields := [age_field, email_field,
                 \<lparr>fr_id = 5, fr_workflow_id = 1, fr_name = ''city'', fr_data_type = ''text'',
                  fr_created_at = 14\<rparr>],
              next_uuid := 6, clock := 15\<rparr>)"
proof -
  let ?e = "mem_env answering"
  let ?fd = "\<lparr>fc_workflow_id = 1, fc_name = ''city'', fc_data_type = ''text''\<rparr>"
  let ?pd = "\<lparr>pc_field_id = 9, pc_prompt_template = ''Extract the city''\<rparr>"
  let ?row = "\<lparr>fr_id = 5, fr_workflow_id = 1, fr_name = ''city'', fr_data_type = ''text'',
            fr_created_at = 14\<rparr>"
  let ?m2 = "intake\<lparr>tbl_fields := [age_field, email_field, ?row], next_uuid := 6, clock := 15\<rparr>"
  have h1: "uuid_of_str ?e wid1 = Some 1" by code_simp
  have h2: "db_select_workflows ?e 1 intake =
     (Inr (\<lparr>wr_id = 1, wr_name = ''intake'', wr_created_at = 10\<rparr> # []), intake)" by code_simp
  have h3: "fc_workflow_id ?fd = 1" by simp
  have h4: "db_insert_field ?e 1 (fc_name ?fd) (fc_data_type ?fd) intake = (Inr (?row # []), ?m2)"
    by code_simp
  have h5: "pc_field_id ?pd \<noteq> fr_id ?row" by simp
  from mismatched_prompt_field_id_keeps_field[OF h1 h2 h3 h4 h5] h4
  show ?thesis by simp
qed

text \<open>
  C4 does not hold on the code. The prompt insert can fail in two ways. When it comes
  back with no rows the compensating delete runs; when it raises, the exception goes
  to the outer handler and no delete runs.
\<close>

lemma empty_prompt_result_runs_compensating_delete:
  assumes "uuid_of_str e wid = Some u"
    and "db_select_workflows e u w = (Inr (workflow # others), w1)"
    and "fc_workflow_id field_data = u"
    and "db_insert_field e u (fc_name field_data) (fc_data_type field_data) w1 =
           (Inr (field # further), w2)"
    and "pc_field_id prompt_data = fr_id field"
    and "db_insert_prompt e (fr_id field) (pc_prompt_template prompt_data) w2 = (Inr [], w3)"
    and "db_delete_field e (fr_id field) w3 = (Inr deleted, w4)"
  shows "create_field_with_prompt e wid field_data prompt_data w =
           (Inl (HTTPException 500 ''Failed to create prompt''), w4)"
  using assms by (simp add: create_field_with_prompt_def)

lemma prompt_insert_exception_skips_compensating_delete:
  assumes "uuid_of_str e wid = Some u"
    and "db_select_workflows e u w = (Inr (workflow # others), w1)"
    and "fc_workflow_id field_data = u"
    and "db_insert_field e u (fc_name field_data) (fc_data_type field_data) w1 =
           (Inr (field # further), w2)"
    and "pc_field_id prompt_data = fr_id field"
    and "db_insert_prompt e (fr_id field) (pc_prompt_template prompt_data) w2 = (Inl x, w3)"
  shows "create_field_with_prompt e wid field_data prompt_data w = (Inl (field_failure x), w3)"
  using assms by (simp add: create_field_with_prompt_def)

text \<open>
  C4 at a failing input: the prompt insert raises, the request ends with status 500,
  and the new field \<open>city\<close> is still in the table and in the next fetch of the
  workflow, without a prompt.
\<close>

theorem prompt_insert_exception_leaves_orphan_field:
  "fst (create_field_with_prompt (mem_env answering) wid1
          \<lparr>fc_workflow_id = 1, fc_name = ''city'', fc_data_type = ''text''\<rparr>
          \<lparr>pc_field_id = 5, pc_prompt_template = ''Extract the city''\<rparr>
          (intake\<lparr>faults := [Answers, Answers, Raises (Exception ''connection reset'')]\<rparr>)) =
     Inl (HTTPException 500 ''Database error: connection reset'') \<and>
   map fr_name (tbl_fields (snd (create_field_with_prompt (mem_env answering) wid1
          \<lparr>fc_workflow_id = 1, fc_name = ''city'', fc_data_type = ''text''\<rparr>
          \<lparr>pc_field_id = 5, pc_prompt_template = ''Extract the city''\<rparr>
          (intake\<lparr>faults := [Answers, Answers, Raises (Exception ''connection reset'')]\<rparr>)))) =
     [''age'', ''email'', ''city''] \<and>
   map_sum id (\<lambda>c. map (\<lambda>f. (f_name f, f_prompts f)) (c_fields c))
     (fst (get_workflow (mem_env answering) wid1
        (snd (create_field_with_prompt (mem_env answering) wid1
          \<lparr>fc_workflow_id = 1, fc_name = ''city'', fc_data_type = ''text''\<rparr>
          \<lparr>pc_field_id = 5, pc_prompt_template = ''Extract the city''\<rparr>
          (intake\<lparr>faults := [Answers, Answers, Raises (Exception ''connection reset'')]\<rparr>))))) =
     Inr [(''age'', [prompt_of_row age_prompt]), (''email'', []), (''city'', [])]"
  by code_simp

text \<open>
  C6, as the code has it. A body whose \<open>data_type\<close> is outside the seven allowed values
  is refused before \<^verbatim>\<open>create_field_with_prompt\<close> runs, the store is not asked (nothing is
  persisted), and the answer is the framework's request validation error, status 422.
\<close>

theorem unknown_data_type_is_unprocessable:
  assumes "fb_data_type fb \<notin> set valid_types"
  shows "\<exists>issues. post_workflow_fields e wid fb pb w = (Unprocessable issues, w) \<and>
           reply_status (fst (post_workflow_fields e wid fb pb w)) = 422 \<and>
           Rejected ''data_type''
             ''Data type must be one of: text, number, boolean, date, email, url, json''
             \<in> set issues"
  using assms
  by (auto simp: post_workflow_fields_def new_FieldCreate_def validate_data_type_def
                 issues_of_def
           split: sum.splits)

theorem unknown_data_type_is_unprocessable_witness:
  "fb_data_type \<lparr>fb_workflow_id = 1, fb_name = ''age'', fb_data_type = ''integer''\<rparr>
     \<notin> set valid_types \<and>
   post_workflow_fields (mem_env answering) wid1
       \<lparr>fb_workflow_id = 1, fb_name = ''age'', fb_data_type = ''integer''\<rparr>
       \<lparr>pb_field_id = 5, pb_prompt_template = ''Extract the age''\<rparr> intake =
     (Unprocessable
        [Rejected ''data_type''
           ''Data type must be one of: text, number, boolean, date, email, url, json''],
      intake)"
proof -
  let ?fb = "\<lparr>fb_workflow_id = 1, fb_name = ''age'', fb_data_type = ''integer''\<rparr>"
  let ?pb = "\<lparr>pb_field_id = 5, pb_prompt_template = ''Extract the age''\<rparr>"
  have h: "fb_data_type ?fb \<notin> set valid_types" by (simp add: valid_types_def)
  have v: "fst (post_workflow_fields (mem_env answering) wid1 ?fb ?pb intake) =
             Unprocessable [Rejected ''data_type''
               ''Data type must be one of: text, number, boolean, date, email, url, json'']"
    by code_simp
  from unknown_data_type_is_unprocessable[OF h, of "mem_env answering" wid1 ?pb intake]
  obtain issues where
    "post_workflow_fields (mem_env answering) wid1 ?fb ?pb intake = (Unprocessable issues, intake)"
    by blast
  then show ?thesis using h v by simp
qed

text \<open>The claim as the specification words it names status 400 for this answer.\<close>

theorem unknown_data_type_is_not_status_400:
  "reply_status (fst (post_workflow_fields (mem_env answering) wid1
       \<lparr>fb_workflow_id = 1, fb_name = ''age'', fb_data_type = ''integer''\<rparr>
       \<lparr>pb_field_id = 5, pb_prompt_template = ''Extract the age''\<rparr> intake)) = 422 \<and>
   reply_status (fst (post_workflow_fields (mem_env answering) wid1
       \<lparr>fb_workflow_id = 1, fb_name = ''age'', fb_data_type = ''integer''\<rparr>
       \<lparr>pb_field_id = 5, pb_prompt_template = ''Extract the age''\<rparr> intake)) \<noteq> 400"
  by code_simp

end
